theory Spec2Isabelle
  imports Complex_Main "HOL-Library.Char_ord" "HOL-Library.List_Lexorder" "HOL-Library.Multiset"
begin

section \<open>Python values, errors and string primitives\<close>

text \<open>
  The module \<^verbatim>\<open>conceptnet5/graph.py\<close> is Python 2. A \<^verbatim>\<open>unicode\<close> string is modelled as a
  \<^typ>\<open>string\<close>: one \<^typ>\<open>char\<close> per code unit, restricted to the code units \<open>0..255\<close>.
  Every exception the module can raise is a value of \<open>error\<close>; a call returns
  \<open>Inl e\<close> where the Python raises \<open>e\<close>. \<open>OutsideModel\<close> marks the one place where the
  model stops following the code: a JSON document that is not an array of strings.
\<close>

datatype error =
    ValueError
  | AttributeError
  | TypeError
  | KeyError
  | IndexError
  | AssertionError
  | NotFoundError
  | NotImplementedError
  | OutsideModel

abbreviation DQ :: char where "DQ \<equiv> CHR 0x22"
abbreviation BSL :: char where "BSL \<equiv> CHR 0x5C"
abbreviation SLASH :: char where "SLASH \<equiv> CHR ''/''"
abbreviation SPACE :: char where "SPACE \<equiv> CHR '' ''"

text \<open>\<^verbatim>\<open>s.count(c)\<close> for a one-character \<^verbatim>\<open>c\<close>.\<close>

definition count_char :: "char \<Rightarrow> string \<Rightarrow> nat" where
  "count_char c s = length (filter (\<lambda>x. x = c) s)"

text \<open>\<^verbatim>\<open>s.replace(a, b)\<close> for one-character \<^verbatim>\<open>a\<close> and \<^verbatim>\<open>b\<close>, and \<^verbatim>\<open>s.replace(a, '')\<close>.\<close>

definition replace_char :: "char \<Rightarrow> char \<Rightarrow> string \<Rightarrow> string" where
  "replace_char a b s = map (\<lambda>x. if x = a then b else x) s"

definition remove_char :: "char \<Rightarrow> string \<Rightarrow> string" where
  "remove_char a s = filter (\<lambda>x. x \<noteq> a) s"

text \<open>
  \<^verbatim>\<open>unicode.strip()\<close> removes leading and trailing whitespace. Among the code units
  \<open>0..255\<close> the whitespace characters of Python 2 are U+0009..U+000D, U+001C..U+001F,
  U+0020, U+0085 and U+00A0.
\<close>

definition is_space :: "char \<Rightarrow> bool" where
  "is_space c = ((of_char c :: nat) \<in> set [9, 10, 11, 12, 13, 28, 29, 30, 31, 32, 133, 160])"

definition strip :: "string \<Rightarrow> string" where
  "strip s = rev (dropWhile is_space (rev (dropWhile is_space s)))"

text \<open>
  \<^verbatim>\<open>s.split(sep, maxsplit)\<close> and \<^verbatim>\<open>s.split(sep)\<close> for a one-character separator, and
  \<^verbatim>\<open>sep.join(items)\<close>.
\<close>

fun split_max :: "char \<Rightarrow> nat \<Rightarrow> string \<Rightarrow> string list" where
  "split_max sep 0 s = [s]"
| "split_max sep (Suc n) s =
     (if sep \<in> set s
      then takeWhile (\<lambda>c. c \<noteq> sep) s # split_max sep n (tl (dropWhile (\<lambda>c. c \<noteq> sep) s))
      else [s])"

definition split :: "char \<Rightarrow> string \<Rightarrow> string list" where
  "split sep s = split_max sep (length s) s"

fun join :: "string \<Rightarrow> string list \<Rightarrow> string" where
  "join sep [] = []"
| "join sep [x] = x"
| "join sep (x # y # ys) = x @ sep @ join sep (y # ys)"

section \<open>The URI codec\<close>

subsection \<open>\<^verbatim>\<open>json.dumps(lst, ensure_ascii=False)\<close> on a list of strings\<close>

text \<open>
  The standard library's encoder writes a string between double quotes and replaces,
  with \<^verbatim>\<open>ensure_ascii=False\<close>, only the double quote, the backslash and the control
  characters below U+0020 (\<^verbatim>\<open>\b \t \n \f \r\<close> by name, the others as \<^verbatim>\<open>\u00XX\<close> in lower-case
  hexadecimal). The items of a list are separated by a comma and a space.
\<close>

definition hexdigit :: "nat \<Rightarrow> char" where
  "hexdigit d = ''0123456789abcdef'' ! (d mod 16)"

definition escape_char :: "char \<Rightarrow> string" where
  "escape_char c =
     (if c = DQ then [BSL, DQ]
      else if c = BSL then [BSL, BSL]
      else if c = CHR 0x08 then [BSL, CHR ''b'']
      else if c = CHR 0x09 then [BSL, CHR ''t'']
      else if c = CHR 0x0A then [BSL, CHR ''n'']
      else if c = CHR 0x0C then [BSL, CHR ''f'']
      else if c = CHR 0x0D then [BSL, CHR ''r'']
      else if (of_char c :: nat) < 32
        then [BSL, CHR ''u'', CHR ''0'', CHR ''0'',
              hexdigit (of_char c div 16), hexdigit (of_char c mod 16)]
      else [c])"

definition encode_basestring :: "string \<Rightarrow> string" where
  "encode_basestring s = DQ # concat (map escape_char s) @ [DQ]"

definition json_dumps :: "string list \<Rightarrow> string" where
  "json_dumps lst = ''['' @ join '', '' (map encode_basestring lst) @ '']''"

text \<open>
  \<^verbatim>\<open>list_to_uri_piece\<close>: the JSON text with every space removed
  (\<^verbatim>\<open>json_unicode.replace(u' ', u'')\<close>).
\<close>

definition list_to_uri_piece :: "string list \<Rightarrow> string" where
  "list_to_uri_piece lst = remove_char SPACE (json_dumps lst)"

subsection \<open>\<^verbatim>\<open>json.loads\<close> on the text of an array of strings\<close>

text \<open>
  The decoder follows the standard library's scanner on one shape of document, an array
  of strings: whitespace (space, tab, line feed, carriage return) is skipped between
  tokens, a string runs to the next unescaped double quote, a backslash introduces one of
  \<^verbatim>\<open>" \ / b f n r t\<close> or \<^verbatim>\<open>uXXXX\<close>, and a raw control character inside a string is an
  error (strict mode). Any other text gives \<open>None\<close>: either \<^verbatim>\<open>json.loads\<close> raises
  \<^verbatim>\<open>ValueError\<close> there, or it returns a value that is not a list of strings (or holds a
  code unit above 255), which this model does not follow.
\<close>

definition is_json_ws :: "char \<Rightarrow> bool" where
  "is_json_ws c = (c = SPACE \<or> c = CHR 0x09 \<or> c = CHR 0x0A \<or> c = CHR 0x0D)"

definition skip_ws :: "string \<Rightarrow> string" where
  "skip_ws s = dropWhile is_json_ws s"

definition hexval :: "char \<Rightarrow> nat option" where
  "hexval c =
     (let n = (of_char c :: nat) in
      if 48 \<le> n \<and> n \<le> 57 then Some (n - 48)
      else if 97 \<le> n \<and> n \<le> 102 then Some (n - 87)
      else if 65 \<le> n \<and> n \<le> 70 then Some (n - 55)
      else None)"

definition hex4 :: "char \<Rightarrow> char \<Rightarrow> char \<Rightarrow> char \<Rightarrow> nat option" where
  "hex4 a b c d =
     (case (hexval a, hexval b, hexval c, hexval d) of
        (Some x, Some y, Some z, Some w) \<Rightarrow> Some (((x * 16 + y) * 16 + z) * 16 + w)
      | _ \<Rightarrow> None)"

definition unescape :: "char \<Rightarrow> char option" where
  "unescape e =
     (if e = DQ then Some DQ
      else if e = BSL then Some BSL
      else if e = SLASH then Some SLASH
      else if e = CHR ''b'' then Some (CHR 0x08)
      else if e = CHR ''f'' then Some (CHR 0x0C)
      else if e = CHR ''n'' then Some (CHR 0x0A)
      else if e = CHR ''r'' then Some (CHR 0x0D)
      else if e = CHR ''t'' then Some (CHR 0x09)
      else None)"

text \<open>
  \<open>scanstring s\<close> reads the body of a string whose opening quote has been consumed and
  returns the decoded string and the text after the closing quote.
\<close>

fun scanstring :: "string \<Rightarrow> (string \<times> string) option" where
  "scanstring [] = None"
| "scanstring (c # cs) =
     (if c = DQ then Some ([], cs)
      else if c = BSL then
        (case cs of
           [] \<Rightarrow> None
         | e # es \<Rightarrow>
             if e = CHR ''u'' then
               (case es of
                  h1 # h2 # h3 # h4 # r \<Rightarrow>
                    (case hex4 h1 h2 h3 h4 of
                       None \<Rightarrow> None
                     | Some n \<Rightarrow>
                         if n < 256
                         then map_option (\<lambda>(x, r'). (char_of n # x, r')) (scanstring r)
                         else None)
                | _ \<Rightarrow> None)
             else
               (case unescape e of
                  None \<Rightarrow> None
                | Some d \<Rightarrow> map_option (\<lambda>(x, r'). (d # x, r')) (scanstring es)))
      else if (of_char c :: nat) < 32 then None
      else map_option (\<lambda>(x, r'). (c # x, r')) (scanstring cs))"

lemma scanstring_shorter:
  "scanstring s = Some (x, r) \<Longrightarrow> length x + length r < length s"
proof (induction s arbitrary: x r rule: scanstring.induct)
  case 1
  then show ?case by simp
next
  case (2 c cs)
  from "2.prems" show ?case
    apply (simp split: if_splits list.splits option.splits)
    using "2.IH" apply fastforce+
    done
qed

lemma skip_ws_length: "length (skip_ws s) \<le> length s"
  by (simp add: skip_ws_def length_dropWhile_le)

text \<open>
  \<open>parse_elems s\<close> reads the items of a non-empty array, the next token being the first
  item, up to and including the closing bracket: the loop of the library's array parser.
\<close>

function parse_elems :: "string \<Rightarrow> (string list \<times> string) option" where
  "parse_elems s =
     (case s of
        [] \<Rightarrow> None
      | c # cs \<Rightarrow>
          if c \<noteq> DQ then None
          else
            (case scanstring cs of
               None \<Rightarrow> None
             | Some (x, r) \<Rightarrow>
                 (case skip_ws r of
                    [] \<Rightarrow> None
                  | d # r' \<Rightarrow>
                      if d = CHR '']'' then Some ([x], r')
                      else if d = CHR '','' then
                        (case parse_elems (skip_ws r') of
                           None \<Rightarrow> None
                         | Some (xs, r'') \<Rightarrow> Some (x # xs, r''))
                      else None)))"
  by pat_completeness auto
termination
proof (relation "measure length")
  show "wf (measure length)" by simp
next
  fix s :: string and c cs p x r d r'
  assume "s = c # cs" "\<not> c \<noteq> DQ" "scanstring cs = Some p" "(x, r) = p"
    "skip_ws r = d # r'" "d \<noteq> CHR '']''" "d = CHR '',''"
  then have "length x + length r < length cs" and "length (skip_ws r) = Suc (length r')"
    by (auto dest: scanstring_shorter)
  moreover have "length (skip_ws r) \<le> length r" "length (skip_ws r') \<le> length r'"
    by (rule skip_ws_length)+
  ultimately show "(skip_ws r', s) \<in> measure length"
    using \<open>s = c # cs\<close> by simp
qed

definition json_loads :: "string \<Rightarrow> string list option" where
  "json_loads s =
     (case skip_ws s of
        [] \<Rightarrow> None
      | c # r \<Rightarrow>
          if c \<noteq> CHR ''['' then None
          else
            (case skip_ws r of
               [] \<Rightarrow> None
             | d # r' \<Rightarrow>
                 if d = CHR '']'' then (if skip_ws r' = [] then Some [] else None)
                 else
                   (case parse_elems (d # r') of
                      None \<Rightarrow> None
                    | Some (xs, r'') \<Rightarrow> if skip_ws r'' = [] then Some xs else None)))"

definition uri_piece_to_list :: "string \<Rightarrow> error + string list" where
  "uri_piece_to_list uri =
     (case json_loads uri of None \<Rightarrow> Inl OutsideModel | Some lst \<Rightarrow> Inr lst)"

subsection \<open>Escaping for the index, assertion URIs, normalisation\<close>

text \<open>
  \<^verbatim>\<open>lucene_escape\<close> puts a backslash before each character of
  \<^verbatim>\<open>[-+&|!(){}\[\]^"~*?\\: ]\<close>.
\<close>

definition lucene_unsafe :: "char \<Rightarrow> bool" where
  "lucene_unsafe c = (c \<in> set (''-+&|!(){}[]^~*?: '' @ [DQ, BSL]))"

definition lucene_escape :: "string \<Rightarrow> string" where
  "lucene_escape text = concat (map (\<lambda>c. if lucene_unsafe c then [BSL, c] else [c]) text)"

definition make_assertion_uri :: "string \<Rightarrow> string list \<Rightarrow> string" where
  "make_assertion_uri relation_uri arg_uri_list =
     ''/assertion/'' @ list_to_uri_piece (relation_uri # arg_uri_list)"

definition make_list_uri :: "string \<Rightarrow> string list \<Rightarrow> string" where
  "make_list_uri type args = ''/'' @ type @ ''/'' @ list_to_uri_piece args"

definition normalize_uri :: "string \<Rightarrow> string" where
  "normalize_uri uri = replace_char SPACE (CHR ''_'') (strip uri)"

section \<open>Values, properties and the overridable methods\<close>

text \<open>
  The functions of the module pass nodes, edges, URIs, identifiers and \<^verbatim>\<open>None\<close> in the
  same positions; \<open>pyobj\<close> is that dynamically typed value. A \<^verbatim>\<open>Node\<close> or a relationship
  object of the database client is a reference to the store, modelled by its identifier.
  \<open>truthy\<close> is the truth value Python's \<^verbatim>\<open>or\<close> tests; the client's node and relationship
  objects define neither \<^verbatim>\<open>__nonzero__\<close> nor \<^verbatim>\<open>__len__\<close>, so they count as true.
\<close>

datatype pyobj =
    PNode nat
  | PEdge nat
  | PStr string
  | PInt int
  | PFloat real
  | PNone

fun truthy :: "pyobj \<Rightarrow> bool" where
  "truthy (PNode n) = True"
| "truthy (PEdge e) = True"
| "truthy (PStr s) = (s \<noteq> [])"
| "truthy (PInt i) = (i \<noteq> 0)"
| "truthy (PFloat x) = (x \<noteq> 0)"
| "truthy PNone = False"

text \<open>
  A property dictionary is an association list in the order the source writes the keys;
  \<open>map_of\<close> reads it. \<open>kwargs named extra\<close> is the call \<^verbatim>\<open>f(k1=v1, ..., **extra)\<close>: Python
  raises \<^verbatim>\<open>TypeError\<close> when \<^verbatim>\<open>extra\<close> repeats a keyword written in the call.
\<close>

type_synonym props = "(string \<times> pyobj) list"

definition kwargs :: "props \<Rightarrow> props \<Rightarrow> error + props" where
  "kwargs named extra =
     (if list_ex (\<lambda>k. k \<in> set (map fst named)) (map fst extra) then Inl TypeError
      else Inr (named @ extra))"

text \<open>
  A call returns its result, or the error raised, together with the state it leaves
  behind: what was written before an exception stays written. \<open>and_then\<close> sequences two
  calls and stops at the first error.
\<close>

definition and_then ::
  "(error + 'a) \<times> 's \<Rightarrow> ('a \<Rightarrow> 's \<Rightarrow> (error + 'b) \<times> 's) \<Rightarrow> (error + 'b) \<times> 's" where
  "and_then r f = (case r of (Inl e, g) \<Rightarrow> (Inl e, g) | (Inr x, g) \<Rightarrow> f x g)"

lemma and_then_cong [fundef_cong]:
  "r = r' \<Longrightarrow> (\<And>x g. r' = (Inr x, g) \<Longrightarrow> f x g = f' x g) \<Longrightarrow> and_then r f = and_then r' f'"
  by (auto simp: and_then_def split: prod.splits sum.splits)

lemma and_then_simps [simp]:
  "and_then (Inl e, g) f = (Inl e, g)"
  "and_then (Inr x, g) f = f x g"
  by (simp_all add: and_then_def)

text \<open>
  \<^verbatim>\<open>GremlinWriterGraph\<close> inherits from \<^verbatim>\<open>ConceptNetGraph\<close> and overrides the methods that
  touch the database. The inherited methods are written once, over a record of the
  overridable ones; \<open>'s\<close> is the state the object works on.
\<close>

record 's methods =
  get_node_of :: "'s \<Rightarrow> string \<Rightarrow> error + pyobj"
  create_node_of :: "'s \<Rightarrow> props \<Rightarrow> (error + pyobj) \<times> 's"
  create_edge_of :: "'s \<Rightarrow> string \<Rightarrow> pyobj \<Rightarrow> pyobj \<Rightarrow> props \<Rightarrow> (error + pyobj) \<times> 's"
  get_edge_of :: "'s \<Rightarrow> string \<Rightarrow> pyobj \<Rightarrow> pyobj \<Rightarrow> error + pyobj"
  any_to_uri_of :: "'s \<Rightarrow> pyobj \<Rightarrow> error + string"
  get_rel_and_args_of :: "'s \<Rightarrow> pyobj \<Rightarrow> error + pyobj list"

section \<open>The node factory\<close>

text \<open>
  \<^verbatim>\<open>getattr(self, '_create_%s_node' % _type)\<close> finds one of the six methods of the class
  whose name has that form, and raises \<^verbatim>\<open>AttributeError\<close> for any other name; it never
  returns \<^verbatim>\<open>None\<close>.
\<close>

datatype builder =
    AssertionBuilder
  | ConceptBuilder
  | FrameBuilder
  | RelationBuilder
  | SourceBuilder
  | WebConceptBuilder

definition getattr_create_node :: "string \<Rightarrow> error + builder" where
  "getattr_create_node type =
     (if type = ''assertion'' then Inr AssertionBuilder
      else if type = ''concept'' then Inr ConceptBuilder
      else if type = ''frame'' then Inr FrameBuilder
      else if type = ''relation'' then Inr RelationBuilder
      else if type = ''source'' then Inr SourceBuilder
      else if type = ''web_concept'' then Inr WebConceptBuilder
      else Inl AttributeError)"

definition create_with ::
  "'s methods \<Rightarrow> 's \<Rightarrow> props \<Rightarrow> props \<Rightarrow> (error + pyobj) \<times> 's" where
  "create_with M g named properties =
     (case kwargs named properties of
        Inl e \<Rightarrow> (Inl e, g)
      | Inr kw \<Rightarrow> create_node_of M g kw)"

definition create_concept_node ::
  "'s methods \<Rightarrow> 's \<Rightarrow> string \<Rightarrow> string \<Rightarrow> props \<Rightarrow> (error + pyobj) \<times> 's" where
  "create_concept_node M g uri rest properties =
     (case split SLASH rest of
        [language, name] \<Rightarrow>
          create_with M g
            [(''type'', PStr ''concept''), (''language'', PStr language), (''name'', PStr name),
             (''uri'', PStr uri), (''score'', PInt 0)] properties
      | _ \<Rightarrow> (Inl ValueError, g))"

definition create_frame_node ::
  "'s methods \<Rightarrow> 's \<Rightarrow> string \<Rightarrow> string \<Rightarrow> props \<Rightarrow> (error + pyobj) \<times> 's" where
  "create_frame_node M g uri rest properties =
     (case split SLASH rest of
        [language, name] \<Rightarrow>
          create_with M g
            [(''type'', PStr ''frame''), (''name'', PStr name), (''language'', PStr language),
             (''score'', PInt 0), (''uri'', PStr uri)] properties
      | _ \<Rightarrow> (Inl ValueError, g))"

definition create_relation_node ::
  "'s methods \<Rightarrow> 's \<Rightarrow> string \<Rightarrow> string \<Rightarrow> props \<Rightarrow> (error + pyobj) \<times> 's" where
  "create_relation_node M g uri rest properties =
     create_with M g
       [(''type'', PStr ''relation''), (''name'', PStr rest), (''uri'', PStr uri)] properties"

definition create_source_node ::
  "'s methods \<Rightarrow> 's \<Rightarrow> string \<Rightarrow> string \<Rightarrow> props \<Rightarrow> (error + pyobj) \<times> 's" where
  "create_source_node M g uri rest properties =
     create_with M g
       [(''type'', PStr ''source''), (''name'', PStr (last (split SLASH rest))),
        (''uri'', PStr uri)] properties"


text \<open>
  \<^verbatim>\<open>_create_assertion_w_components\<close>: the assertion node, its \<^verbatim>\<open>relation\<close> edge, and one
  \<^verbatim>\<open>arg\<close> edge per argument with \<^verbatim>\<open>position\<close> \<open>i + 1\<close>.
\<close>

fun create_arg_edges ::
  "'s methods \<Rightarrow> 's \<Rightarrow> pyobj \<Rightarrow> pyobj list \<Rightarrow> int \<Rightarrow> (error + unit) \<times> 's" where
  "create_arg_edges M g assertion [] i = (Inr (), g)"
| "create_arg_edges M g assertion (a # args) i =
     and_then (create_edge_of M g ''arg'' assertion a [(''position'', PInt (i + 1))])
       (\<lambda>_ g1. create_arg_edges M g1 assertion args (i + 1))"

definition create_assertion_w_components ::
  "'s methods \<Rightarrow> 's \<Rightarrow> string \<Rightarrow> pyobj \<Rightarrow> pyobj list \<Rightarrow> props \<Rightarrow> (error + pyobj) \<times> 's" where
  "create_assertion_w_components M g uri relation args properties =
     and_then
       (create_with M g
          [(''type'', PStr ''assertion''), (''uri'', PStr uri), (''score'', PInt 0)] properties)
       (\<lambda>assertion g1.
          and_then (create_edge_of M g1 ''relation'' assertion relation [])
            (\<lambda>_ g2.
               and_then (create_arg_edges M g2 assertion args 0)
                 (\<lambda>_ g3. (Inr assertion, g3))))"

text \<open>
  The sizes that make the recursion of the factory terminate: the items decoded from a
  list piece are together shorter than the piece, normalisation never lengthens a URI,
  and the remainder after the type tag is shorter than the URI.
\<close>

lemma parse_elems_size:
  "parse_elems s = Some (xs, r) \<Longrightarrow> (\<Sum>x\<leftarrow>xs. Suc (Suc (length x))) + length r \<le> length s"
proof (induction s arbitrary: xs r rule: parse_elems.induct)
  case (1 s)
  from "1.prems" obtain cs x r0 d r' where
    s: "s = DQ # cs" and sc: "scanstring cs = Some (x, r0)" and sk: "skip_ws r0 = d # r'"
    by (subst (asm) parse_elems.simps) (auto split: list.splits if_splits option.splits)
  have l1: "length x + length r0 < length cs" using sc by (rule scanstring_shorter)
  have l2: "Suc (length r') \<le> length r0" using skip_ws_length [of r0] sk by simp
  show ?case
  proof (cases "d = CHR '']''")
    case True
    with "1.prems" s sc sk have "xs = [x]" "r = r'"
      by (subst (asm) parse_elems.simps, simp)+
    with l1 l2 s show ?thesis by simp
  next
    case False
    with "1.prems" s sc sk obtain ys where
      d: "d = CHR '',''" and p: "parse_elems (skip_ws r') = Some (ys, r)" and xs: "xs = x # ys"
      by (subst (asm) parse_elems.simps) (auto split: if_splits option.splits)
    have "(\<Sum>x\<leftarrow>ys. Suc (Suc (length x))) + length r \<le> length (skip_ws r')"
      using "1.IH" [OF s _ sc refl sk False d p] by simp
    with skip_ws_length [of r'] l1 l2 s xs show ?thesis by simp
  qed
qed

lemma json_loads_size:
  assumes "json_loads s = Some xs"
  shows "(\<Sum>x\<leftarrow>xs. Suc (Suc (length x))) < length s"
proof -
  from assms obtain r where s: "skip_ws s = CHR ''['' # r"
    by (auto simp: json_loads_def split: list.splits if_splits)
  from assms s obtain d r' where r: "skip_ws r = d # r'"
    by (auto simp: json_loads_def split: list.splits if_splits)
  have ls: "Suc (length r) \<le> length s" using skip_ws_length [of s] s by simp
  have lr: "Suc (length r') \<le> length r" using skip_ws_length [of r] r by simp
  show ?thesis
  proof (cases "d = CHR '']''")
    case True
    with assms s r have "xs = []" by (auto simp: json_loads_def split: if_splits)
    with ls show ?thesis by auto
  next
    case False
    with assms s r obtain r'' where "parse_elems (d # r') = Some (xs, r'')"
      by (auto simp: json_loads_def split: if_splits option.splits)
    from parse_elems_size [OF this] ls lr show ?thesis by simp
  qed
qed

lemma uri_piece_to_list_size:
  "uri_piece_to_list s = Inr xs \<Longrightarrow> (\<Sum>x\<leftarrow>xs. Suc (Suc (length x))) < length s"
  by (auto simp: uri_piece_to_list_def split: option.splits dest: json_loads_size)

lemma length_strip: "length (strip s) \<le> length s"
proof -
  have "length (strip s) \<le> length (dropWhile is_space s)"
    unfolding strip_def using length_dropWhile_le [of is_space "rev (dropWhile is_space s)"] by simp
  also have "\<dots> \<le> length s" by (rule length_dropWhile_le)
  finally show ?thesis .
qed

lemma length_normalize_uri: "length (normalize_uri u) \<le> length u"
  by (simp add: normalize_uri_def replace_char_def length_strip)

lemma length_tl_dropWhile: "c \<in> set s \<Longrightarrow> length (tl (dropWhile (\<lambda>x. x \<noteq> c) s)) < length s"
proof -
  assume "c \<in> set s"
  then have "dropWhile (\<lambda>x. x \<noteq> c) s \<noteq> []" by (auto simp: dropWhile_eq_Nil_conv)
  then have "length (tl (dropWhile (\<lambda>x. x \<noteq> c) s)) < length (dropWhile (\<lambda>x. x \<noteq> c) s)"
    by (cases "dropWhile (\<lambda>x. x \<noteq> c) s") auto
  also have "\<dots> \<le> length s" by (rule length_dropWhile_le)
  finally show ?thesis .
qed

lemma split_max_2_rest:
  assumes "split_max c 2 s = [a, t, rest]"
  shows "Suc (Suc (length rest)) \<le> length s"
proof -
  let ?r1 = "tl (dropWhile (\<lambda>x. x \<noteq> c) s)"
  from assms have c1: "c \<in> set s" by (auto simp: numeral_2_eq_2 split: if_splits)
  with assms have c2: "c \<in> set ?r1" and rest: "rest = tl (dropWhile (\<lambda>x. x \<noteq> c) ?r1)"
    by (auto simp: numeral_2_eq_2 split: if_splits)
  from length_tl_dropWhile [OF c1] length_tl_dropWhile [OF c2] rest show ?thesis by simp
qed

lemma sum_Suc_le: "(\<Sum>u\<leftarrow>xs. Suc (length u)) \<le> (\<Sum>u\<leftarrow>xs. Suc (Suc (length u)))"
  by (induction xs) auto

text \<open>
  \<^verbatim>\<open>get_or_create_node\<close>, \<^verbatim>\<open>_create_node_by_type\<close> and \<^verbatim>\<open>_create_assertion_node\<close> call one
  another: an assertion URI names its relation and arguments, which are created first.
  \<^verbatim>\<open>_create_web_concept_node\<close> takes two arguments and the dispatch passes three, which
  is a \<^verbatim>\<open>TypeError\<close>. The check \<^verbatim>\<open>if method is None\<close> after \<^verbatim>\<open>getattr\<close> never holds, since
  \<^verbatim>\<open>getattr\<close> has raised by then; the third pattern of the \<^verbatim>\<open>split\<close> never occurs after
  the count check.
\<close>

function get_or_create_node ::
    "'s methods \<Rightarrow> 's \<Rightarrow> string \<Rightarrow> props \<Rightarrow> (error + pyobj) \<times> 's"
  and create_node_by_type ::
    "'s methods \<Rightarrow> 's \<Rightarrow> string \<Rightarrow> props \<Rightarrow> (error + pyobj) \<times> 's"
  and create_assertion_node ::
    "'s methods \<Rightarrow> 's \<Rightarrow> string \<Rightarrow> string \<Rightarrow> props \<Rightarrow> (error + pyobj) \<times> 's"
  and get_or_create_nodes ::
    "'s methods \<Rightarrow> 's \<Rightarrow> string list \<Rightarrow> (error + pyobj list) \<times> 's"
where
  "get_or_create_node M g uri properties =
     (case get_node_of M g uri of
        Inl e \<Rightarrow> (Inl e, g)
      | Inr found \<Rightarrow>
          if truthy found then (Inr found, g)
          else create_node_by_type M g uri properties)"
| "create_node_by_type M g uri0 properties =
     (let uri = normalize_uri uri0 in
      if count_char SLASH uri < 2 then (Inl ValueError, g)
      else
        (case split_max SLASH 2 uri of
           [_, type, rest] \<Rightarrow>
             (case getattr_create_node type of
                Inl e \<Rightarrow> (Inl e, g)
              | Inr AssertionBuilder \<Rightarrow> create_assertion_node M g uri rest properties
              | Inr ConceptBuilder \<Rightarrow> create_concept_node M g uri rest properties
              | Inr FrameBuilder \<Rightarrow> create_frame_node M g uri rest properties
              | Inr RelationBuilder \<Rightarrow> create_relation_node M g uri rest properties
              | Inr SourceBuilder \<Rightarrow> create_source_node M g uri rest properties
              | Inr WebConceptBuilder \<Rightarrow> (Inl TypeError, g))
         | _ \<Rightarrow> (Inl ValueError, g)))"
| "create_assertion_node M g uri rest properties =
     (case uri_piece_to_list rest of
        Inl e \<Rightarrow> (Inl e, g)
      | Inr uri_parts \<Rightarrow>
          (case uri_parts of
             [] \<Rightarrow> (Inl IndexError, g)
           | rel_uri # arg_uris \<Rightarrow>
               and_then (get_or_create_node M g rel_uri [])
                 (\<lambda>rel g1.
                    and_then (get_or_create_nodes M g1 arg_uris)
                      (\<lambda>args g2.
                         create_assertion_w_components M g2 uri rel args properties))))"
| "get_or_create_nodes M g [] = (Inr [], g)"
| "get_or_create_nodes M g (uri # uris) =
     and_then (get_or_create_node M g uri [])
       (\<lambda>node g1.
          and_then (get_or_create_nodes M g1 uris)
            (\<lambda>nodes g2. (Inr (node # nodes), g2)))"
  by pat_completeness auto
termination
  apply (relation "measure (\<lambda>x. case x of
      Inl (Inl (M, g, uri, p)) \<Rightarrow> 2 * length uri + 2
    | Inl (Inr (M, g, uri, p)) \<Rightarrow> 2 * length uri + 1
    | Inr (Inl (M, g, uri, rest, p)) \<Rightarrow> 2 * length rest + 3
    | Inr (Inr (M, g, uris)) \<Rightarrow> 2 * (\<Sum>u\<leftarrow>uris. Suc (length u)) + 1)")
     apply simp_all
  subgoal for uri0 x a x22 t x22a rest
    using split_max_2_rest [of SLASH "normalize_uri uri0" a t rest]
      length_normalize_uri [of uri0] by simp
  subgoal for rest b x xs
    using uri_piece_to_list_size [of rest "x # xs"] by simp
  subgoal for M g rest b x xs
    using uri_piece_to_list_size [of rest "x # xs"] sum_Suc_le [of xs] by simp
  done

section \<open>The inherited operations\<close>

text \<open>\<^verbatim>\<open>self.get_node(uri) or alternative\<close>.\<close>

definition get_node_or ::
  "'s methods \<Rightarrow> 's \<Rightarrow> string \<Rightarrow> (error + pyobj) \<times> 's \<Rightarrow> (error + pyobj) \<times> 's" where
  "get_node_or M g uri alternative =
     (case get_node_of M g uri of
        Inl e \<Rightarrow> (Inl e, g)
      | Inr found \<Rightarrow> if truthy found then (Inr found, g) else alternative)"

definition get_or_create_edge ::
  "'s methods \<Rightarrow> 's \<Rightarrow> string \<Rightarrow> pyobj \<Rightarrow> pyobj \<Rightarrow> props \<Rightarrow> (error + pyobj) \<times> 's" where
  "get_or_create_edge M g type source target properties =
     (case get_edge_of M g type source target of
        Inl e \<Rightarrow> (Inl e, g)
      | Inr found \<Rightarrow>
          if truthy found then (Inr found, g)
          else create_edge_of M g type source target properties)"

text \<open>A list comprehension whose body may raise.\<close>

fun map_err :: "('a \<Rightarrow> error + 'b) \<Rightarrow> 'a list \<Rightarrow> error + 'b list" where
  "map_err f [] = Inr []"
| "map_err f (x # xs) =
     (case f x of
        Inl e \<Rightarrow> Inl e
      | Inr y \<Rightarrow> (case map_err f xs of Inl e \<Rightarrow> Inl e | Inr ys \<Rightarrow> Inr (y # ys)))"



definition conjunction_uri :: "string list \<Rightarrow> string" where
  "conjunction_uri uris = ''/conjunction/'' @ list_to_uri_piece (sort uris)"

definition get_or_create_conjunction ::
  "'s methods \<Rightarrow> 's \<Rightarrow> pyobj list \<Rightarrow> (error + pyobj) \<times> 's" where
  "get_or_create_conjunction M g conjuncts =
     (case map_err (any_to_uri_of M g) conjuncts of
        Inl e \<Rightarrow> (Inl e, g)
      | Inr uris \<Rightarrow>
          (let uri = conjunction_uri uris in
           case get_node_of M g uri of
             Inl e \<Rightarrow> (Inl e, g)
           | Inr node \<Rightarrow>
               if node = PNone
               then create_node_of M g [(''type'', PStr ''conjunction''), (''uri'', PStr uri)]
               else (Inr node, g)))"





text \<open>
  \<^verbatim>\<open>justify\<close> and \<^verbatim>\<open>derive_normalized\<close>. The weight is a float, modelled as a real number;
  \<^verbatim>\<open>assert weight > 0\<close> is the only test on it.
\<close>

definition justify ::
  "'s methods \<Rightarrow> 's \<Rightarrow> pyobj \<Rightarrow> pyobj \<Rightarrow> real \<Rightarrow> (error + pyobj) \<times> 's" where
  "justify M g source target weight =
     get_or_create_edge M g ''justifies'' source target [(''weight'', PFloat weight)]"

fun normalize_pairs ::
  "'s methods \<Rightarrow> 's \<Rightarrow> (pyobj \<times> pyobj) list \<Rightarrow> (error + unit) \<times> 's" where
  "normalize_pairs M g [] = (Inr (), g)"
| "normalize_pairs M g ((node1, node2) # pairs) =
     (if \<not> (node1 = node2)
      then and_then (get_or_create_edge M g ''normalized'' node1 node2 [])
             (\<lambda>_ g1. normalize_pairs M g1 pairs)
      else normalize_pairs M g pairs)"

definition derive_normalized ::
  "'s methods \<Rightarrow> 's \<Rightarrow> pyobj \<Rightarrow> pyobj \<Rightarrow> real \<Rightarrow> (error + pyobj) \<times> 's" where
  "derive_normalized M g source target weight =
     (if \<not> weight > 0 then (Inl AssertionError, g)
      else
        and_then (get_or_create_edge M g ''normalized'' source target [])
          (\<lambda>edge g1.
             and_then (justify M g1 source target weight)
               (\<lambda>_ g2.
                  case get_rel_and_args_of M g2 source of
                    Inl e \<Rightarrow> (Inl e, g2)
                  | Inr xs \<Rightarrow>
                      (case get_rel_and_args_of M g2 target of
                         Inl e \<Rightarrow> (Inl e, g2)
                       | Inr ys \<Rightarrow>
                           and_then (normalize_pairs M g2 (zip xs ys))
                             (\<lambda>_ g3. (Inr edge, g3))))))"

section \<open>\<^verbatim>\<open>ConceptNetGraph\<close>: the operations on the live store\<close>

text \<open>
  The graph database and its two automatic indexes are an external service. The store is
  modelled as the list of its nodes (identifier and properties, in creation order) and
  the list of its edges. An index query is answered from the current store, and a new
  node gets an identifier that no node and no edge of the store mentions.
\<close>

record edge =
  edge_id :: nat
  edge_type :: string
  edge_start :: nat
  edge_end :: nat
  edge_props :: props

record store =
  nodes :: "(nat \<times> props) list"
  edges :: "edge list"

definition node_ids :: "store \<Rightarrow> nat list" where
  "node_ids g = map fst (nodes g)"

definition fresh_node_id :: "store \<Rightarrow> nat" where
  "fresh_node_id g =
     Suc (fold max (node_ids g @ map edge_start (edges g) @ map edge_end (edges g)) 0)"

definition fresh_edge_id :: "store \<Rightarrow> nat" where
  "fresh_edge_id g = Suc (fold max (map edge_id (edges g)) 0)"

text \<open>\<^verbatim>\<open>'%d' % i\<close>.\<close>

fun digits :: "nat \<Rightarrow> string" where
  "digits n = (if n < 10 then [hexdigit n] else digits (n div 10) @ [hexdigit (n mod 10)])"

definition show_int :: "int \<Rightarrow> string" where
  "show_int i = (if i < 0 then CHR ''-'' # digits (nat (- i)) else digits (nat i))"

text \<open>
  The query parser of the index reads a backslash as the escape of the character after
  it; the node index then returns the nodes whose property equals the text. The edge
  index is asked for the value of \<^verbatim>\<open>nodes\<close> as it stands.
\<close>

fun lucene_unescape :: "string \<Rightarrow> string" where
  "lucene_unescape [] = []"
| "lucene_unescape [c] = [c]"
| "lucene_unescape (c # d # r) =
     (if c = BSL then d # lucene_unescape r else c # lucene_unescape (d # r))"

definition node_index_query :: "store \<Rightarrow> string \<Rightarrow> string \<Rightarrow> nat list" where
  "node_index_query g key text =
     map fst (filter (\<lambda>(n, ps). map_of ps key = Some (PStr (lucene_unescape text))) (nodes g))"

definition edge_index_query :: "store \<Rightarrow> string \<Rightarrow> string \<Rightarrow> edge list" where
  "edge_index_query g key text =
     filter (\<lambda>e. map_of (edge_props e) key = Some (PStr text)) (edges g)"

text \<open>\<^verbatim>\<open>node[key]\<close> and \<^verbatim>\<open>edge[key]\<close>: a request to the store, which fails when the node, the
  edge or the property is not there.\<close>

definition node_property :: "store \<Rightarrow> nat \<Rightarrow> string \<Rightarrow> error + pyobj" where
  "node_property g n key =
     (case map_of (nodes g) n of
        None \<Rightarrow> Inl NotFoundError
      | Some ps \<Rightarrow> (case map_of ps key of None \<Rightarrow> Inl NotFoundError | Some v \<Rightarrow> Inr v))"

definition edge_property :: "edge \<Rightarrow> string \<Rightarrow> error + pyobj" where
  "edge_property e key =
     (case map_of (edge_props e) key of None \<Rightarrow> Inl NotFoundError | Some v \<Rightarrow> Inr v)"

definition create_node :: "store \<Rightarrow> props \<Rightarrow> (error + pyobj) \<times> store" where
  "create_node g properties =
     (let n = fresh_node_id g
      in (Inr (PNode n), g\<lparr>nodes := nodes g @ [(n, properties)]\<rparr>))"

definition get_node :: "store \<Rightarrow> string \<Rightarrow> error + pyobj" where
  "get_node g uri0 =
     (let uri = normalize_uri uri0;
          results = node_index_query g ''uri'' (lucene_escape uri)
      in if length results = 1 then Inr (PNode (results ! 0))
         else if length results = 0 then Inr PNone
         else Inl AssertionError)"

definition get_node_by_id :: "store \<Rightarrow> int \<Rightarrow> error + pyobj" where
  "get_node_by_id g i =
     (if 0 \<le> i \<and> nat i \<in> set (node_ids g) then Inr (PNode (nat i)) else Inl NotFoundError)"

definition any_to_id :: "store \<Rightarrow> pyobj \<Rightarrow> error + int" where
  "any_to_id g obj =
     (case obj of
        PNode n \<Rightarrow> Inr (int n)
      | PStr s \<Rightarrow>
          (case get_node g s of
             Inl e \<Rightarrow> Inl e
           | Inr (PNode n) \<Rightarrow> Inr (int n)
           | Inr _ \<Rightarrow> Inl ValueError)
      | PInt i \<Rightarrow> Inr i
      | _ \<Rightarrow> Inl TypeError)"

definition any_to_uri :: "store \<Rightarrow> pyobj \<Rightarrow> error + string" where
  "any_to_uri g obj =
     (case obj of
        PNode n \<Rightarrow>
          (case node_property g n ''uri'' of
             Inl e \<Rightarrow> Inl e
           | Inr (PStr u) \<Rightarrow> Inr u
           | Inr _ \<Rightarrow> Inl OutsideModel)
      | PStr s \<Rightarrow> Inr (normalize_uri s)
      | PInt i \<Rightarrow>
          (case get_node_by_id g i of
             Inl e \<Rightarrow> Inl e
           | Inr (PNode n) \<Rightarrow>
               (case node_property g n ''uri'' of
                  Inl e \<Rightarrow> Inl e
                | Inr (PStr u) \<Rightarrow> Inr u
                | Inr _ \<Rightarrow> Inl OutsideModel)
           | Inr _ \<Rightarrow> Inl OutsideModel)
      | _ \<Rightarrow> Inl TypeError)"

text \<open>
  \<^verbatim>\<open>_any_to_node(obj)\<close> with \<^verbatim>\<open>create=False\<close>, the form \<^verbatim>\<open>_create_edge\<close> and the readers
  call; the form with \<^verbatim>\<open>create=True\<close> follows the factory below.
\<close>

definition any_to_node0 :: "store \<Rightarrow> pyobj \<Rightarrow> error + pyobj" where
  "any_to_node0 g obj =
     (case obj of
        PNode n \<Rightarrow> Inr (PNode n)
      | PStr s \<Rightarrow>
          (case get_node g s of
             Inl e \<Rightarrow> Inl e
           | Inr node \<Rightarrow> if node = PNone then Inl ValueError else Inr node)
      | PInt i \<Rightarrow> get_node_by_id g i
      | _ \<Rightarrow> Inl TypeError)"

text \<open>
  \<^verbatim>\<open>_create_edge\<close>: \<^verbatim>\<open>source.relationships.create(_type, target, **properties)\<close>, a request
  the store refuses when an end point is gone, then \<^verbatim>\<open>edge['nodes'] = '%d-%d' % ...\<close>.
\<close>

definition create_edge ::
  "store \<Rightarrow> string \<Rightarrow> pyobj \<Rightarrow> pyobj \<Rightarrow> props \<Rightarrow> (error + pyobj) \<times> store" where
  "create_edge g type source0 target0 properties =
     (case any_to_node0 g source0 of
        Inl e \<Rightarrow> (Inl e, g)
      | Inr source \<Rightarrow>
          (case any_to_node0 g target0 of
             Inl e \<Rightarrow> (Inl e, g)
           | Inr target \<Rightarrow>
               (case (source, target) of
                  (PNode s, PNode t) \<Rightarrow>
                    if s \<in> set (node_ids g) \<and> t \<in> set (node_ids g) then
                      (let e = fresh_edge_id g
                       in (Inr (PEdge e),
                           g\<lparr>edges := edges g @
                              [\<lparr>edge_id = e, edge_type = type, edge_start = s, edge_end = t,
                                edge_props =
                                  (''nodes'', PStr (show_int (int s) @ ''-'' @ show_int (int t)))
                                  # properties\<rparr>]\<rparr>))
                    else (Inl NotFoundError, g)
                | _ \<Rightarrow> (Inl AttributeError, g))))"

definition get_edges :: "store \<Rightarrow> pyobj \<Rightarrow> pyobj \<Rightarrow> error + edge list" where
  "get_edges g source0 target0 =
     (case any_to_id g source0 of
        Inl e \<Rightarrow> Inl e
      | Inr source \<Rightarrow>
          (case any_to_id g target0 of
             Inl e \<Rightarrow> Inl e
           | Inr target \<Rightarrow>
               Inr (edge_index_query g ''nodes'' (show_int source @ ''-'' @ show_int target))))"

text \<open>
  \<^verbatim>\<open>get_edge\<close> loops over the result of the index query, which the client hands out as an
  iterable that yields its items from the last to the first: of several edges of the
  wanted type the loop returns the one found last by the index.
\<close>

definition get_edge :: "store \<Rightarrow> string \<Rightarrow> pyobj \<Rightarrow> pyobj \<Rightarrow> error + pyobj" where
  "get_edge g type source target =
     (case get_edges g source target of
        Inl e \<Rightarrow> Inl e
      | Inr es \<Rightarrow>
          (case find (\<lambda>e. edge_type e = type) (rev es) of
             Some e \<Rightarrow> Inr (PEdge (edge_id e))
           | None \<Rightarrow> Inr PNone))"

text \<open>
  \<^verbatim>\<open>node.relationships.outgoing(types=[...])\<close> and \<^verbatim>\<open>incoming()\<close> return a list of
  relationship objects; with \<^verbatim>\<open>types\<close> not a list the client applies no filter.
\<close>

definition outgoing :: "store \<Rightarrow> nat \<Rightarrow> string list option \<Rightarrow> edge list" where
  "outgoing g n types =
     filter (\<lambda>e. edge_start e = n \<and> (case types of None \<Rightarrow> True | Some ts \<Rightarrow> edge_type e \<in> set ts))
       (edges g)"

definition incoming :: "store \<Rightarrow> nat \<Rightarrow> edge list" where
  "incoming g n = filter (\<lambda>e. edge_end e = n) (edges g)"

text \<open>
  \<^verbatim>\<open>node.relationships\<close> is the client's object that offers \<^verbatim>\<open>all\<close>, \<^verbatim>\<open>incoming\<close>,
  \<^verbatim>\<open>outgoing\<close> and \<^verbatim>\<open>create\<close>; it is not callable, so the call \<^verbatim>\<open>node.relationships()\<close>
  raises \<^verbatim>\<open>TypeError\<close>.
\<close>

definition relationships :: "store \<Rightarrow> nat \<Rightarrow> error + edge list" where
  "relationships g n = Inl TypeError"

text \<open>\<^verbatim>\<open>edges.sort(key = lambda edge: edge['position'])\<close>, for integer positions.\<close>

definition position_of :: "edge \<Rightarrow> error + int \<times> edge" where
  "position_of e =
     (case edge_property e ''position'' of
        Inl err \<Rightarrow> Inl err
      | Inr (PInt i) \<Rightarrow> Inr (i, e)
      | Inr _ \<Rightarrow> Inl OutsideModel)"

definition sort_by_position :: "edge list \<Rightarrow> error + edge list" where
  "sort_by_position es =
     (case map_err position_of es of
        Inl e \<Rightarrow> Inl e
      | Inr keyed \<Rightarrow> Inr (map snd (sort_key fst keyed)))"

definition get_args :: "store \<Rightarrow> pyobj \<Rightarrow> error + pyobj list" where
  "get_args g assertion0 =
     (case any_to_node0 g assertion0 of
        Inl e \<Rightarrow> Inl e
      | Inr (PNode n) \<Rightarrow>
          (case sort_by_position (outgoing g n (Some [''arg''])) of
             Inl e \<Rightarrow> Inl e
           | Inr es \<Rightarrow> Inr (map (\<lambda>e. PNode (edge_end e)) es))
      | Inr _ \<Rightarrow> Inl AttributeError)"

text \<open>
  \<^verbatim>\<open>get_rel_and_args\<close> writes \<^verbatim>\<open>outgoing(types=['relation'][0])\<close>: the index \<^verbatim>\<open>[0]\<close> is
  inside the call, so \<^verbatim>\<open>rel_edge\<close> is the list the call returns, and \<^verbatim>\<open>rel_edge.end\<close> is
  an attribute a Python list does not have.
\<close>

definition end_of_list :: "edge list \<Rightarrow> error + pyobj" where
  "end_of_list es = Inl AttributeError"

definition get_rel_and_args :: "store \<Rightarrow> pyobj \<Rightarrow> error + pyobj list" where
  "get_rel_and_args g assertion0 =
     (case any_to_node0 g assertion0 of
        Inl e \<Rightarrow> Inl e
      | Inr (PNode n) \<Rightarrow>
          (case sort_by_position (outgoing g n (Some [''arg''])) of
             Inl e \<Rightarrow> Inl e
           | Inr es \<Rightarrow>
               (let rel_edge = outgoing g n None in
                case end_of_list rel_edge of
                  Inl e \<Rightarrow> Inl e
                | Inr rel \<Rightarrow> Inr (rel # map (\<lambda>e. PNode (edge_end e)) es)))
      | Inr _ \<Rightarrow> Inl AttributeError)"

definition ConceptNetGraph :: "store methods" where
  "ConceptNetGraph =
     \<lparr>get_node_of = get_node, create_node_of = create_node, create_edge_of = create_edge,
      get_edge_of = get_edge, any_to_uri_of = any_to_uri,
      get_rel_and_args_of = get_rel_and_args\<rparr>"

lemma ConceptNetGraph_methods [simp]:
  "get_node_of ConceptNetGraph = get_node"
  "create_node_of ConceptNetGraph = create_node"
  "create_edge_of ConceptNetGraph = create_edge"
  "get_edge_of ConceptNetGraph = get_edge"
  "any_to_uri_of ConceptNetGraph = any_to_uri"
  "get_rel_and_args_of ConceptNetGraph = get_rel_and_args"
  by (simp_all add: ConceptNetGraph_def)

text \<open>\<^verbatim>\<open>_any_to_node(obj, create)\<close> and \<^verbatim>\<open>get_or_create_assertion\<close>.\<close>

definition any_to_node :: "store \<Rightarrow> pyobj \<Rightarrow> bool \<Rightarrow> (error + pyobj) \<times> store" where
  "any_to_node g obj create =
     (case obj of
        PStr s \<Rightarrow>
          (case get_node g s of
             Inl e \<Rightarrow> (Inl e, g)
           | Inr node \<Rightarrow>
               if node = PNone
               then (if create then get_or_create_node ConceptNetGraph g s []
                     else (Inl ValueError, g))
               else (Inr node, g))
      | _ \<Rightarrow> (any_to_node0 g obj, g))"

fun any_to_nodes :: "store \<Rightarrow> pyobj list \<Rightarrow> bool \<Rightarrow> (error + pyobj list) \<times> store" where
  "any_to_nodes g [] create = (Inr [], g)"
| "any_to_nodes g (obj # objs) create =
     and_then (any_to_node g obj create)
       (\<lambda>node g1.
          and_then (any_to_nodes g1 objs create)
            (\<lambda>nodes g2. (Inr (node # nodes), g2)))"

definition get_or_create_assertion ::
  "store \<Rightarrow> pyobj \<Rightarrow> pyobj list \<Rightarrow> props \<Rightarrow> (error + pyobj) \<times> store" where
  "get_or_create_assertion g relation args properties =
     (case any_to_uri g relation of
        Inl e \<Rightarrow> (Inl e, g)
      | Inr relation_uri \<Rightarrow>
          (case map_err (any_to_uri g) args of
             Inl e \<Rightarrow> (Inl e, g)
           | Inr arg_uris \<Rightarrow>
               (let uri = make_assertion_uri relation_uri arg_uris in
                get_node_or ConceptNetGraph g uri
                  (and_then (any_to_node g relation True)
                     (\<lambda>rel g1.
                        and_then (any_to_nodes g1 args True)
                          (\<lambda>nodes g2.
                             create_assertion_w_components ConceptNetGraph g2 uri rel nodes
                               properties))))))"

text \<open>
  \<^verbatim>\<open>delete_node\<close>. For a \<^verbatim>\<open>source\<close> node the loop runs over
  \<^verbatim>\<open>node.relationships.outgoing()\<close>, whose items are relationship objects: \<^verbatim>\<open>rel_node['type']\<close>
  reads the property \<^verbatim>\<open>type\<close> of the edge, and \<^verbatim>\<open>conj_list\<close> collects edges. The other
  branch reads \<^verbatim>\<open>edge.start['type']\<close>, the type of the node the edge comes from.
  When the deletion is not refused, the first statement of the deleting path is the loop
  over \<^verbatim>\<open>node.relationships()\<close>, a call that raises before anything is deleted.
\<close>

fun collect_conjunctions :: "edge list \<Rightarrow> error + pyobj list" where
  "collect_conjunctions [] = Inr []"
| "collect_conjunctions (rel_node # rest) =
     (case edge_property rel_node ''type'' of
        Inl e \<Rightarrow> Inl e
      | Inr ty \<Rightarrow>
          (case collect_conjunctions rest of
             Inl e \<Rightarrow> Inl e
           | Inr conj_list \<Rightarrow>
               Inr (if ty = PStr ''conjunction'' then PEdge (edge_id rel_node) # conj_list
                    else conj_list)))"

fun scan_incoming :: "store \<Rightarrow> edge list \<Rightarrow> error + bool" where
  "scan_incoming g [] = Inr True"
| "scan_incoming g (e # es) =
     (case node_property g (edge_start e) ''type'' of
        Inl err \<Rightarrow> Inl err
      | Inr ty \<Rightarrow> if ty = PStr ''assertion'' then Inr False else scan_incoming g es)"

definition delete_edge :: "store \<Rightarrow> nat \<Rightarrow> (error + unit) \<times> store" where
  "delete_edge g e =
     (if e \<in> set (map edge_id (edges g))
      then (Inr (), g\<lparr>edges := filter (\<lambda>x. edge_id x \<noteq> e) (edges g)\<rparr>)
      else (Inl NotFoundError, g))"

definition delete_node_object :: "store \<Rightarrow> nat \<Rightarrow> (error + unit) \<times> store" where
  "delete_node_object g n =
     (if n \<in> set (node_ids g)
      then (Inr (), g\<lparr>nodes := filter (\<lambda>(k, ps). k \<noteq> n) (nodes g)\<rparr>)
      else (Inl NotFoundError, g))"

definition delete_object :: "store \<Rightarrow> pyobj \<Rightarrow> (error + unit) \<times> store" where
  "delete_object g obj =
     (case obj of
        PEdge e \<Rightarrow> delete_edge g e
      | PNode n \<Rightarrow> delete_node_object g n
      | _ \<Rightarrow> (Inl AttributeError, g))"

fun delete_all :: "store \<Rightarrow> pyobj list \<Rightarrow> (error + unit) \<times> store" where
  "delete_all g [] = (Inr (), g)"
| "delete_all g (obj # objs) = and_then (delete_object g obj) (\<lambda>_ g1. delete_all g1 objs)"

definition delete_node :: "store \<Rightarrow> pyobj \<Rightarrow> (error + unit) \<times> store" where
  "delete_node g obj =
     (case any_to_node0 g obj of
        Inl e \<Rightarrow> (Inl e, g)
      | Inr (PNode n) \<Rightarrow>
          (case node_property g n ''type'' of
             Inl e \<Rightarrow> (Inl e, g)
           | Inr ty \<Rightarrow>
               (case (if ty = PStr ''source'' then
                        (case collect_conjunctions (outgoing g n None) of
                           Inl e \<Rightarrow> Inl e
                         | Inr conj_list \<Rightarrow> Inr (True, conj_list))
                      else if ty \<noteq> PStr ''conjunction'' then
                        (case scan_incoming g (incoming g n) of
                           Inl e \<Rightarrow> Inl e
                         | Inr delete \<Rightarrow> Inr (delete, []))
                      else Inr (True, [])) of
                  Inl e \<Rightarrow> (Inl e, g)
                | Inr (delete, conj_list) \<Rightarrow>
                    if delete then
                      (case relationships g n of
                         Inl e \<Rightarrow> (Inl e, g)
                       | Inr es \<Rightarrow>
                           and_then (delete_all g (map (\<lambda>e. PEdge (edge_id e)) es))
                             (\<lambda>_ g1.
                                and_then (delete_all g1 conj_list)
                                  (\<lambda>_ g2. delete_object g2 (PNode n))))
                    else (Inl AssertionError, g)))
      | Inr _ \<Rightarrow> (Inl AttributeError, g))"

section \<open>\<^verbatim>\<open>GremlinWriterGraph\<close>: the bulk-export variant\<close>

text \<open>
  The writer prints one statement per creation to its output file and keeps the list
  \<^verbatim>\<open>recently_created_uris\<close>. The file is modelled as the list of the statements printed
  after the preamble; a statement keeps the arguments of \<^verbatim>\<open>makeNode\<close> or \<^verbatim>\<open>makeEdge\<close>, not
  their text. \<^verbatim>\<open>json.dumps\<close> of the property dictionary raises \<^verbatim>\<open>TypeError\<close> on a value
  that is not a string, a number or \<^verbatim>\<open>None\<close>.
\<close>

datatype statement =
    MakeNode string props
  | MakeEdge string string string props

record writer =
  output_file :: "statement list"
  recently_created_uris :: "string list"

definition writer_init :: writer where
  "writer_init = \<lparr>output_file = [], recently_created_uris = []\<rparr>"

fun serializable :: "pyobj \<Rightarrow> bool" where
  "serializable (PNode n) = False"
| "serializable (PEdge e) = False"
| "serializable v = True"

definition dict_to_gremlin_map :: "props \<Rightarrow> error + props" where
  "dict_to_gremlin_map thedict =
     (if list_all (\<lambda>(k, v). serializable v) thedict then Inr thedict else Inl TypeError)"

definition gw_create_node :: "writer \<Rightarrow> props \<Rightarrow> (error + pyobj) \<times> writer" where
  "gw_create_node g properties =
     (case map_of properties ''uri'' of
        None \<Rightarrow> (Inl KeyError, g)
      | Some u \<Rightarrow>
          (case dict_to_gremlin_map properties of
             Inl e \<Rightarrow> (Inl e, g)
           | Inr m \<Rightarrow>
               (case u of
                  PStr uri \<Rightarrow>
                    (Inr (PStr uri),
                     g\<lparr>output_file := output_file g @ [MakeNode uri m],
                       recently_created_uris :=
                         drop (length (recently_created_uris g) - 19) (recently_created_uris g)
                         @ [uri]\<rparr>)
                | _ \<Rightarrow> (Inl AttributeError, g))))"

definition gw_create_edge ::
  "writer \<Rightarrow> string \<Rightarrow> pyobj \<Rightarrow> pyobj \<Rightarrow> props \<Rightarrow> (error + pyobj) \<times> writer" where
  "gw_create_edge g type source0 target properties =
     (let source = (if source0 = PInt 0 \<or> source0 = PFloat 0 then PStr ''/'' else source0) in
      case dict_to_gremlin_map properties of
        Inl e \<Rightarrow> (Inl e, g)
      | Inr m \<Rightarrow>
          (case (source, target) of
             (PStr s, PStr t) \<Rightarrow> (Inr PNone, g\<lparr>output_file := output_file g @ [MakeEdge type s t m]\<rparr>)
           | _ \<Rightarrow> (Inl AttributeError, g)))"

definition gw_any_to_uri :: "writer \<Rightarrow> pyobj \<Rightarrow> error + string" where
  "gw_any_to_uri g obj = (case obj of PStr s \<Rightarrow> Inr (normalize_uri s) | _ \<Rightarrow> Inl TypeError)"

definition gw_any_to_node :: "writer \<Rightarrow> pyobj \<Rightarrow> error + pyobj" where
  "gw_any_to_node g obj = Inl NotImplementedError"

definition gw_get_node :: "writer \<Rightarrow> string \<Rightarrow> error + pyobj" where
  "gw_get_node g uri = (if uri \<in> set (recently_created_uris g) then Inr (PStr uri) else Inr PNone)"

definition gw_get_edge :: "writer \<Rightarrow> string \<Rightarrow> pyobj \<Rightarrow> pyobj \<Rightarrow> error + pyobj" where
  "gw_get_edge g type source target = Inr PNone"

definition gw_get_edges :: "writer \<Rightarrow> pyobj \<Rightarrow> pyobj \<Rightarrow> pyobj list" where
  "gw_get_edges g source target = []"

definition gw_get_rel_and_args :: "writer \<Rightarrow> pyobj \<Rightarrow> error + pyobj list" where
  "gw_get_rel_and_args g assertion_uri =
     (case assertion_uri of
        PStr uri \<Rightarrow>
          if take 11 uri \<noteq> ''/assertion/'' then Inl AssertionError
          else (case uri_piece_to_list (drop 11 uri) of
                  Inl e \<Rightarrow> Inl e
                | Inr parts \<Rightarrow> Inr (map PStr parts))
      | _ \<Rightarrow> Inl TypeError)"

definition gw_get_args :: "writer \<Rightarrow> pyobj \<Rightarrow> error + pyobj list" where
  "gw_get_args g assertion_uri =
     (case gw_get_rel_and_args g assertion_uri of Inl e \<Rightarrow> Inl e | Inr xs \<Rightarrow> Inr (drop 1 xs))"

definition GremlinWriterGraph :: "writer methods" where
  "GremlinWriterGraph =
     \<lparr>get_node_of = gw_get_node, create_node_of = gw_create_node,
      create_edge_of = gw_create_edge, get_edge_of = gw_get_edge,
      any_to_uri_of = gw_any_to_uri, get_rel_and_args_of = gw_get_rel_and_args\<rparr>"





section \<open>Example states\<close>

text \<open>
  A store holding the assertions \<open>IsA(dog, animal)\<close> (node 4) and \<open>IsA(dog, mammal)\<close>
  (node 6), and a store holding a source (node 1) that justifies a conjunction (node 2),
  both built through the operations above.
\<close>

definition empty_store :: store where
  "empty_store = \<lparr>nodes = [], edges = []\<rparr>"

definition dog_kb :: store where
  "dog_kb =
     (let g1 = snd (get_or_create_assertion empty_store (PStr ''/relation/IsA'')
                      [PStr ''/concept/en/dog'', PStr ''/concept/en/animal''] [])
      in snd (get_or_create_assertion g1 (PStr ''/relation/IsA'')
                [PStr ''/concept/en/dog'', PStr ''/concept/en/mammal''] []))"

definition source_kb :: store where
  "source_kb =
     (let g1 = snd (get_or_create_node ConceptNetGraph empty_store ''/source/web/dbpedia.org'' []);
          g2 = snd (get_or_create_conjunction ConceptNetGraph g1 [PStr ''/source/web/dbpedia.org''])
      in snd (justify ConceptNetGraph g2 (PNode 1) (PNode 2) 1))"

definition two_nodes :: store where
  "two_nodes =
     \<lparr>nodes = [(1, [(''type'', PStr ''source''), (''uri'', PStr ''/source/web/x'')]),
               (2, [(''type'', PStr ''assertion''), (''uri'', PStr ''/assertion/[]'')])],
      edges = []\<rparr>"

definition edge_summary :: "store \<Rightarrow> (string \<times> nat \<times> nat) list" where
  "edge_summary g = map (\<lambda>e. (edge_type e, edge_start e, edge_end e)) (edges g)"

definition node_summary :: "store \<Rightarrow> (nat \<times> pyobj option) list" where
  "node_summary g = map (\<lambda>(n, ps). (n, map_of ps ''type'')) (nodes g)"

lemma dog_kb_summary:
  "node_summary dog_kb =
     [(1, Some (PStr ''relation'')), (2, Some (PStr ''concept'')), (3, Some (PStr ''concept'')),
      (4, Some (PStr ''assertion'')), (5, Some (PStr ''concept'')), (6, Some (PStr ''assertion''))]"
  "edge_summary dog_kb =
     [(''relation'', 4, 1), (''arg'', 4, 2), (''arg'', 4, 3),
      (''relation'', 6, 1), (''arg'', 6, 2), (''arg'', 6, 5)]"
  by code_simp+

lemma source_kb_summary:
  "node_summary source_kb = [(1, Some (PStr ''source'')), (2, Some (PStr ''conjunction''))]"
  "edge_summary source_kb = [(''justifies'', 1, 2)]"
  by code_simp+

section \<open>Counting slashes\<close>


lemma count_char_simps [simp]:
  "count_char c [] = 0"
  "count_char c (x # s) = (if x = c then 1 else 0) + count_char c s"
  "count_char c (s @ t) = count_char c s + count_char c t"
  by (simp_all add: count_char_def)

lemma count_char_rev [simp]: "count_char c (rev s) = count_char c s"
  by (induction s) auto






section \<open>The claims\<close>

subsection \<open>C9: a slash in a concept name\<close>


subsection \<open>C5: the errors of the node factory\<close>

text \<open>
  A URI whose normalised form has fewer than two slashes is refused with the
  \<^verbatim>\<open>ValueError\<close> of the source, whatever the state.
\<close>

lemma create_node_by_type_too_short:
  "count_char SLASH (normalize_uri uri) < 2 \<Longrightarrow>
   create_node_by_type M g uri properties = (Inl ValueError, g)"
  by simp

text \<open>
  A type tag that names no builder ends in the \<^verbatim>\<open>AttributeError\<close> of \<^verbatim>\<open>getattr\<close>, not in
  the \<^verbatim>\<open>ValueError\<close> the source prepares for it.
\<close>

lemma create_node_by_type_unregistered:
  assumes "\<not> count_char SLASH (normalize_uri uri) < 2"
    and "split_max SLASH 2 (normalize_uri uri) = [before, type, rest]"
    and "type \<notin> set [''assertion'', ''concept'', ''frame'', ''relation'', ''source'',
                     ''web_concept'']"
  shows "create_node_by_type M g uri properties = (Inl AttributeError, g)"
  using assms by (simp add: getattr_create_node_def)

text \<open>
  Claim C5 (the code departs from it). The claim: \<^verbatim>\<open>_create_node_by_type\<close> fails with the
  validation error "URI too short" for a URI with fewer than two segments, and with the
  validation error "unknown node type" for a type tag without a builder. On the code the
  second failure is not the \<^verbatim>\<open>ValueError\<close> written two lines below the \<^verbatim>\<open>getattr\<close>: for the
  URI \<open>/conjunction/[]\<close>, whose tag \<open>conjunction\<close> has no builder, the call ends in
  \<^verbatim>\<open>AttributeError\<close>.
\<close>

theorem create_node_by_type_unknown_type:
  "create_node_by_type M g ''/conjunction/[]'' [] = (Inl AttributeError, g)"
  by (simp add: normalize_uri_def strip_def is_space_def replace_char_def
      numeral_2_eq_2 getattr_create_node_def)

subsection \<open>C2: the list codec\<close>

text \<open>
  Claim C2 (the code departs from it). The claim: decoding the encoding of a list of
  strings gives the list back, also when an item holds a space. \<^verbatim>\<open>list_to_uri_piece\<close>
  removes every space of the JSON text, those inside the items too: the list \<open>["a b"]\<close>
  comes back as \<open>["ab"]\<close>.
\<close>

theorem uri_piece_roundtrip_loses_spaces:
  "uri_piece_to_list (list_to_uri_piece [''a b'']) = Inr [''ab'']"
  by code_simp

subsection \<open>C4: \<^verbatim>\<open>derive_normalized\<close>\<close>

text \<open>A weight that is not positive is refused before anything is written, in both variants.\<close>

lemma derive_normalized_weight:
  "weight \<le> 0 \<Longrightarrow> derive_normalized M g source target weight = (Inl AssertionError, g)"
  by (simp add: derive_normalized_def)

text \<open>
  Claim C4 (the code departs from it). The claim: with a positive weight,
  \<^verbatim>\<open>derive_normalized\<close> writes the \<^verbatim>\<open>normalized\<close> edge, calls \<^verbatim>\<open>justify\<close>, and writes a
  \<^verbatim>\<open>normalized\<close> edge for each pair of differing components. On the live store every call
  of \<^verbatim>\<open>get_rel_and_args\<close> raises \<^verbatim>\<open>AttributeError\<close>: for the assertions \<open>IsA(dog, animal)\<close>
  and \<open>IsA(dog, mammal)\<close> and the weight \<open>1/2\<close> the call writes the two edges between the
  assertions and then fails, and no edge from \<open>animal\<close> (node 3) to \<open>mammal\<close> (node 5) is
  written.
\<close>

theorem derive_normalized_live_fails:
  "(let r = derive_normalized ConceptNetGraph dog_kb (PNode 4) (PNode 6) (1 / 2)
    in (fst r, edge_summary (snd r))) =
   (Inl AttributeError, edge_summary dog_kb @ [(''normalized'', 4, 6), (''justifies'', 4, 6)])"
  by code_simp

subsection \<open>C3: \<^verbatim>\<open>delete_node\<close>\<close>

text \<open>
  Claim C3 (the code departs from it). The claim: for a \<^verbatim>\<open>source\<close> node the dependent
  conjunctions are the targets of its outgoing edges that have type \<^verbatim>\<open>conjunction\<close>, and
  they are deleted with the node. The loop of the source reads the property \<^verbatim>\<open>type\<close> of
  each outgoing edge instead: deleting the source of \<open>source_kb\<close>, which justifies a
  conjunction, raises the store's error for the missing property and deletes nothing.
\<close>

theorem delete_node_source_fails:
  "delete_node source_kb (PNode 1) = (Inl NotFoundError, source_kb)"
  by code_simp

subsection \<open>C10: the writer never finds an edge\<close>

lemma gw_get_or_create_edge:
  "get_or_create_edge GremlinWriterGraph g type source target properties =
   gw_create_edge g type source target properties"
  by (simp add: get_or_create_edge_def GremlinWriterGraph_def gw_get_edge_def)

lemma gw_create_edge_strings:
  "dict_to_gremlin_map properties = Inr properties \<Longrightarrow>
   gw_create_edge g type (PStr s) (PStr t) properties =
   (Inr PNone, g\<lparr>output_file := output_file g @ [MakeEdge type s t properties]\<rparr>)"
  by (simp add: gw_create_edge_def)

lemma gw_create_edge_extends:
  "gw_create_edge g type source target properties = (r, g') \<Longrightarrow>
   \<exists>ext. output_file g' = output_file g @ ext \<and> recently_created_uris g' = recently_created_uris g"
  by (auto simp: gw_create_edge_def Let_def split: sum.splits pyobj.splits if_splits)

lemma gw_normalize_pairs_extends:
  "normalize_pairs GremlinWriterGraph g pairs = (r, g') \<Longrightarrow>
   \<exists>ext. output_file g' = output_file g @ ext \<and> recently_created_uris g' = recently_created_uris g"
proof (induction pairs arbitrary: g)
  case Nil
  then show ?case by simp
next
  case (Cons p pairs)
  obtain n1 n2 where p: "p = (n1, n2)" by (cases p)
  show ?case
  proof (cases "n1 = n2")
    case True
    with Cons p show ?thesis by simp
  next
    case False
    obtain r1 g1 where c: "gw_create_edge g ''normalized'' n1 n2 [] = (r1, g1)"
      by (cases "gw_create_edge g ''normalized'' n1 n2 []")
    from gw_create_edge_extends [OF c] obtain e1 where
      e1: "output_file g1 = output_file g @ e1" "recently_created_uris g1 = recently_created_uris g"
      by blast
    show ?thesis
    proof (cases r1)
      case (Inl e)
      with Cons.prems p False c e1 show ?thesis
        by (simp add: gw_get_or_create_edge)
    next
      case (Inr x)
      with Cons.prems p False c have "normalize_pairs GremlinWriterGraph g1 pairs = (r, g')"
        by (simp add: gw_get_or_create_edge)
      from Cons.IH [OF this] e1 show ?thesis by auto
    qed
  qed
qed

text \<open>
  Claim C10. In the bulk-export variant \<^verbatim>\<open>get_edge\<close> returns \<^verbatim>\<open>None\<close> and \<^verbatim>\<open>get_edges\<close> the
  empty list, whatever the arguments, so \<^verbatim>\<open>get_or_create_edge\<close> is \<^verbatim>\<open>_create_edge\<close>: between
  two URIs it prints a \<^verbatim>\<open>makeEdge\<close> statement at every call, twice for two identical calls,
  and leaves the list of recent URIs alone. \<^verbatim>\<open>justify\<close> prints its \<^verbatim>\<open>justifies\<close> statement at
  every call, and \<^verbatim>\<open>derive_normalized\<close> with a positive weight prints the \<^verbatim>\<open>normalized\<close>
  and the \<^verbatim>\<open>justifies\<close> statements before anything else.
\<close>

theorem gw_edges_never_deduplicated:
  "gw_get_edge g type source target = Inr PNone
   \<and> gw_get_edges g source target = []
   \<and> get_or_create_edge GremlinWriterGraph g type source target properties =
       gw_create_edge g type source target properties
   \<and> (dict_to_gremlin_map properties = Inr properties \<longrightarrow>
        (let e = MakeEdge type s t properties;
             g1 = snd (get_or_create_edge GremlinWriterGraph g type (PStr s) (PStr t) properties);
             g2 = snd (get_or_create_edge GremlinWriterGraph g1 type (PStr s) (PStr t) properties)
         in output_file g1 = output_file g @ [e] \<and> output_file g2 = output_file g @ [e, e]
            \<and> recently_created_uris g2 = recently_created_uris g))
   \<and> justify GremlinWriterGraph g (PStr s) (PStr t) weight =
       (Inr PNone,
        g\<lparr>output_file := output_file g @ [MakeEdge ''justifies'' s t [(''weight'', PFloat weight)]]\<rparr>)
   \<and> (0 < weight \<longrightarrow>
        (\<exists>ext. output_file (snd (derive_normalized GremlinWriterGraph g (PStr s) (PStr t) weight)) =
           output_file g @ [MakeEdge ''normalized'' s t [],
                            MakeEdge ''justifies'' s t [(''weight'', PFloat weight)]] @ ext))"
proof -
  have j: "justify GremlinWriterGraph g0 (PStr s) (PStr t) weight =
       (Inr PNone,
        g0\<lparr>output_file := output_file g0 @ [MakeEdge ''justifies'' s t [(''weight'', PFloat weight)]]\<rparr>)"
    for g0
    by (simp add: justify_def gw_get_or_create_edge gw_create_edge_strings dict_to_gremlin_map_def)
  have d: "\<exists>ext. output_file (snd (derive_normalized GremlinWriterGraph g (PStr s) (PStr t) weight)) =
           output_file g @ [MakeEdge ''normalized'' s t [],
                            MakeEdge ''justifies'' s t [(''weight'', PFloat weight)]] @ ext"
    if w: "0 < weight"
  proof -
    obtain g1 where n: "get_or_create_edge GremlinWriterGraph g ''normalized'' (PStr s) (PStr t) [] =
         (Inr PNone, g1)"
      and o1: "output_file g1 = output_file g @ [MakeEdge ''normalized'' s t []]"
      by (simp add: gw_get_or_create_edge gw_create_edge_strings dict_to_gremlin_map_def)
    obtain g2 where j2: "justify GremlinWriterGraph g1 (PStr s) (PStr t) weight = (Inr PNone, g2)"
      and o2: "output_file g2 =
          output_file g1 @ [MakeEdge ''justifies'' s t [(''weight'', PFloat weight)]]"
      by (simp add: j)
    have dn: "derive_normalized GremlinWriterGraph g (PStr s) (PStr t) weight =
      (case get_rel_and_args_of GremlinWriterGraph g2 (PStr s) of
         Inl e \<Rightarrow> (Inl e, g2)
       | Inr xs \<Rightarrow>
          (case get_rel_and_args_of GremlinWriterGraph g2 (PStr t) of
             Inl e \<Rightarrow> (Inl e, g2)
           | Inr ys \<Rightarrow>
               and_then (normalize_pairs GremlinWriterGraph g2 (zip xs ys))
                 (\<lambda>_ g3. (Inr PNone, g3))))"
      using w by (simp add: derive_normalized_def n j2)
    show ?thesis
    proof (cases "get_rel_and_args_of GremlinWriterGraph g2 (PStr s)")
      case (Inl e)
      then show ?thesis by (simp add: dn o1 o2)
    next
      case xs: (Inr xs)
      show ?thesis
      proof (cases "get_rel_and_args_of GremlinWriterGraph g2 (PStr t)")
        case (Inl e)
        with xs show ?thesis by (simp add: dn o1 o2)
      next
        case ys: (Inr ys)
        obtain r g3 where np: "normalize_pairs GremlinWriterGraph g2 (zip xs ys) = (r, g3)"
          by (cases "normalize_pairs GremlinWriterGraph g2 (zip xs ys)")
        from gw_normalize_pairs_extends [OF np] obtain ext where
          "output_file g3 = output_file g2 @ ext" by blast
        with xs ys np show ?thesis by (cases r) (simp_all add: dn o1 o2)
      qed
    qed
  qed
  show ?thesis
    using d by (simp add: gw_get_edge_def gw_get_edges_def gw_get_or_create_edge
        gw_create_edge_strings j Let_def)
qed


theorem gw_edges_never_deduplicated_witness:
  "dict_to_gremlin_map [] = Inr [] \<and> (0::real) < 1
   \<and> output_file
        (snd (get_or_create_edge GremlinWriterGraph
               (snd (get_or_create_edge GremlinWriterGraph writer_init ''normalized''
                      (PStr ''/a/b'') (PStr ''/a/c'') []))
               ''normalized'' (PStr ''/a/b'') (PStr ''/a/c'') [])) =
       [MakeEdge ''normalized'' ''/a/b'' ''/a/c'' [], MakeEdge ''normalized'' ''/a/b'' ''/a/c'' []]
   \<and> (\<exists>ext. output_file
          (snd (derive_normalized GremlinWriterGraph writer_init (PStr ''/a/b'') (PStr ''/a/c'') 1)) =
        [MakeEdge ''normalized'' ''/a/b'' ''/a/c'' [],
         MakeEdge ''justifies'' ''/a/b'' ''/a/c'' [(''weight'', PFloat 1)]] @ ext)"
  using gw_edges_never_deduplicated [where g = writer_init and type = "''normalized''"
      and source = PNone and target = PNone
      and properties = "[]" and s = "''/a/b''" and t = "''/a/c''" and weight = 1]
  by (simp add: dict_to_gremlin_map_def writer_init_def Let_def)

subsection \<open>C7: \<^verbatim>\<open>justify\<close> stores the weight as given\<close>

lemma create_edge_error_independent:
  "(fst (create_edge g type source target properties) = Inl e) =
   (fst (create_edge g type source target properties') = Inl e)"
  by (simp add: create_edge_def Let_def split: sum.splits pyobj.splits)

lemma create_edge_new:
  assumes "create_edge g type source target properties = (Inr r, g')"
  shows "\<exists>ed. edges g' = edges g @ [ed] \<and> nodes g' = nodes g \<and> r = PEdge (edge_id ed)
     \<and> edge_type ed = type
     \<and> edge_props ed = (''nodes'', PStr (show_int (int (edge_start ed)) @ ''-'' @ show_int (int (edge_end ed)))) # properties
     \<and> any_to_node0 g source = Inr (PNode (edge_start ed))
     \<and> any_to_node0 g target = Inr (PNode (edge_end ed))
     \<and> edge_id ed = fresh_edge_id g"
  using assms
  by (auto simp: create_edge_def Let_def split: sum.splits pyobj.splits if_splits)

text \<open>
  Claim C7. \<^verbatim>\<open>justify\<close> get-or-creates a \<^verbatim>\<open>justifies\<close> edge and never tests the weight:
  whether the call fails, and with which error, does not depend on the weight; when no
  such edge exists and the call succeeds, the store gains exactly one edge, of type
  \<^verbatim>\<open>justifies\<close>, whose property \<^verbatim>\<open>weight\<close> is the weight given; and when the edge exists
  it is returned and nothing is written.
\<close>

theorem justify_stores_weight_unchecked:
  "((fst (justify ConceptNetGraph g source target weight) = Inl e) =
    (fst (justify ConceptNetGraph g source target weight') = Inl e))
   \<and> (get_edge g ''justifies'' source target = Inr PNone
        \<and> justify ConceptNetGraph g source target weight = (Inr r, g') \<longrightarrow>
        (\<exists>ed. edges g' = edges g @ [ed] \<and> nodes g' = nodes g \<and> r = PEdge (edge_id ed)
           \<and> edge_type ed = ''justifies''
           \<and> map_of (edge_props ed) ''weight'' = Some (PFloat weight)))
   \<and> (get_edge g ''justifies'' source target = Inr (PEdge k) \<longrightarrow>
        justify ConceptNetGraph g source target weight = (Inr (PEdge k), g))"
proof -
  have j: "justify ConceptNetGraph g source target w =
      (case get_edge g ''justifies'' source target of
         Inl e \<Rightarrow> (Inl e, g)
       | Inr found \<Rightarrow>
           if truthy found then (Inr found, g)
           else create_edge g ''justifies'' source target [(''weight'', PFloat w)])" for w
    by (simp add: justify_def get_or_create_edge_def cong: sum.case_cong if_cong)
  have a: "(fst (justify ConceptNetGraph g source target weight) = Inl e) =
    (fst (justify ConceptNetGraph g source target weight') = Inl e)"
    unfolding j
    using create_edge_error_independent [of g "''justifies''" source target
        "[(''weight'', PFloat weight)]" e "[(''weight'', PFloat weight')]"]
    by (simp split: sum.splits)
  have b: "\<exists>ed. edges g' = edges g @ [ed] \<and> nodes g' = nodes g \<and> r = PEdge (edge_id ed)
           \<and> edge_type ed = ''justifies''
           \<and> map_of (edge_props ed) ''weight'' = Some (PFloat weight)"
    if "get_edge g ''justifies'' source target = Inr PNone"
      and "justify ConceptNetGraph g source target weight = (Inr r, g')"
  proof -
    from that have "create_edge g ''justifies'' source target [(''weight'', PFloat weight)] = (Inr r, g')"
      by (simp add: j)
    from create_edge_new [OF this] show ?thesis by auto
  qed
  have c: "justify ConceptNetGraph g source target weight = (Inr (PEdge k), g)"
    if "get_edge g ''justifies'' source target = Inr (PEdge k)"
    using that by (simp add: j)
  from a b c show ?thesis by blast
qed

theorem justify_stores_weight_unchecked_witness:
  "get_edge two_nodes ''justifies'' (PNode 1) (PNode 2) = Inr PNone
   \<and> fst (justify ConceptNetGraph two_nodes (PNode 1) (PNode 2) 5) = Inr (PEdge 1)
   \<and> (\<exists>ed. edges (snd (justify ConceptNetGraph two_nodes (PNode 1) (PNode 2) 5)) =
             edges two_nodes @ [ed]
           \<and> edge_type ed = ''justifies''
           \<and> map_of (edge_props ed) ''weight'' = Some (PFloat 5))"
proof -
  have h: "get_edge two_nodes ''justifies'' (PNode 1) (PNode 2) = Inr PNone"
    by code_simp
  have f: "fst (justify ConceptNetGraph two_nodes (PNode 1) (PNode 2) 5) = Inr (PEdge 1)"
    by code_simp
  then have "justify ConceptNetGraph two_nodes (PNode 1) (PNode 2) 5 =
      (Inr (PEdge 1), snd (justify ConceptNetGraph two_nodes (PNode 1) (PNode 2) 5))"
    by (metis prod.collapse)
  with h justify_stores_weight_unchecked [of two_nodes "PNode 1" "PNode 2" 5 AssertionError 5
      "PEdge 1" "snd (justify ConceptNetGraph two_nodes (PNode 1) (PNode 2) 5)" 0]
  show ?thesis using f by auto
qed

section \<open>What the factory preserves\<close>











subsection \<open>C8: the window of recent URIs\<close>

text \<open>
  The URIs the writer has created are those of the \<^verbatim>\<open>makeNode\<close> statements of its file, in
  order; \<open>last_n 20\<close> of them is the window of the claim.
\<close>

fun created_uris :: "statement list \<Rightarrow> string list" where
  "created_uris [] = []"
| "created_uris (MakeNode uri m # out) = uri # created_uris out"
| "created_uris (MakeEdge type s t m # out) = created_uris out"





lemma created_uris_append [simp]:
  "created_uris (out @ out') = created_uris out @ created_uris out'"
  by (induction out rule: created_uris.induct) auto































end
